theory Spec2Isabelle
  imports Main
begin

section \<open>The JSON-RPC client of rpc-websockets (src/lib/client.js)\<close>

text \<open>
  The client is a single-threaded, event-driven object. Every method and every event
  handler of the source is a function from the client's fields to the updated fields
  and the list of effects it performs, in order: callbacks of pending promises, listener
  invocations made by \<open>emit\<close>, frames handed to \<open>socket.send\<close>, timers armed with
  \<open>setTimeout\<close> and sockets created. A handler that throws returns \<open>Inl\<close> of what it throws.

  Numbers are JavaScript numbers that hold integers: \<open>rpc_id\<close> and the reconnect
  counters start at 0 and only ever grow by one, which is exact below \<open>2^53\<close>; they are
  natural numbers here.
\<close>

subsection \<open>Values\<close>

datatype jsval =
    JNull
  | JBool bool
  | JNum int
  | JStr string
  | JArr "jsval list"
  | JObj "(string \<times> jsval) list"

text \<open>JavaScript truthiness of a decoded JSON value; an absent member reads as
  \<open>undefined\<close>, which is falsy, and is \<open>None\<close> below.\<close>

fun truthy :: "jsval \<Rightarrow> bool" where
  "truthy JNull = False"
| "truthy (JBool b) = b"
| "truthy (JNum n) = (n \<noteq> 0)"
| "truthy (JStr s) = (s \<noteq> [])"
| "truthy (JArr xs) = True"
| "truthy (JObj kvs) = True"

text \<open>What can leave a handler: the TypeError of a property read on \<open>undefined\<close> or
  \<open>null\<close>, of a call of something that is not a function, or of the conversion of an
  object to a primitive value; and the transport error that the event emitter throws
  when the \<open>error\<close> event has no listener.\<close>

datatype error = TypeError | Unhandled string

subsection \<open>Property keys\<close>

text \<open>\<open>this.queue[k]\<close> converts \<open>k\<close> to a string first. A number is written in decimal;
  an array is its elements joined with commas, \<open>null\<close> elements as the empty string; an
  object decoded from JSON is \<open>[object Object]\<close>, unless it has a member \<open>toString\<close> of
  its own: that member is not a function, and the conversion throws. (Numbers are
  integers here, of magnitude below \<open>2^53\<close>.)\<close>

definition digit :: "nat \<Rightarrow> char" where
  "digit n = ''0123456789'' ! n"

fun decimal :: "nat \<Rightarrow> string" where
  "decimal n = (if n < 10 then [digit n] else decimal (n div 10) @ [digit (n mod 10)])"

declare decimal.simps [simp del]

fun to_string :: "jsval \<Rightarrow> error + string"
  and join :: "jsval list \<Rightarrow> error + string" where
  "to_string JNull = Inr ''null''"
| "to_string (JBool b) = Inr (if b then ''true'' else ''false'')"
| "to_string (JNum n) = Inr (if n < 0 then CHR ''-'' # decimal (nat (- n)) else decimal (nat n))"
| "to_string (JStr s) = Inr s"
| "to_string (JArr xs) = join xs"
| "to_string (JObj kvs) =
     (if ''toString'' \<in> set (map fst kvs) then Inl TypeError else Inr ''[object Object]'')"
| "join [] = Inr []"
| "join (x # xs) =
     (case (if x = JNull then Inr [] else to_string x) of
        Inl e \<Rightarrow> Inl e
      | Inr s \<Rightarrow>
          (if xs = [] then Inr s
           else (case join xs of Inl e \<Rightarrow> Inl e | Inr t \<Rightarrow> Inr (s @ '','' @ t))))"

text \<open>The key that a member read as \<open>message.id\<close> names; an absent member is
  \<open>undefined\<close>.\<close>

definition property_key :: "jsval option \<Rightarrow> error + string" where
  "property_key v = (case v of None \<Rightarrow> Inr ''undefined'' | Some x \<Rightarrow> to_string x)"

text \<open>The keys that \<open>queue\<close> holds itself are written by \<open>this.queue[rpc_id] = ...\<close> and
  are the decimal numerals of the ids, so the queue is a map from the ids. A key finds
  an entry of the queue when it spells a natural number the way \<open>decimal\<close> writes it: in
  digits, with no leading zero.\<close>

definition digit_of :: "char \<Rightarrow> nat option" where
  "digit_of c = (if c \<in> set ''0123456789'' then Some (of_char c - 48) else None)"

fun number_of :: "string \<Rightarrow> nat \<Rightarrow> nat option" where
  "number_of [] acc = Some acc"
| "number_of (c # cs) acc =
     (case digit_of c of None \<Rightarrow> None | Some d \<Rightarrow> number_of cs (10 * acc + d))"

definition numeral_key :: "string \<Rightarrow> nat option" where
  "numeral_key s =
     (if s = [] \<or> (hd s = CHR ''0'' \<and> tl s \<noteq> []) then None else number_of s 0)"

text \<open>\<open>queue\<close> is created as \<open>{}\<close>, so a key it does not hold itself is looked up in
  \<open>Object.prototype\<close>. These are the members found there: functions, and for
  \<open>__proto__\<close> the prototype object itself. All of them are truthy, and none has a
  member \<open>0\<close> or \<open>1\<close>.\<close>

definition object_prototype :: "string list" where
  "object_prototype =
     [''constructor'', ''__defineGetter__'', ''__defineSetter__'', ''hasOwnProperty'',
      ''__lookupGetter__'', ''__lookupSetter__'', ''isPrototypeOf'', ''propertyIsEnumerable'',
      ''toString'', ''valueOf'', ''__proto__'', ''toLocaleString'']"

subsection \<open>Inbound and outbound messages\<close>

text \<open>The value of the \<open>params\<close> member of an inbound message, as far as the handler
  looks at it: it reads \<open>params.length\<close> and \<open>params[i]\<close>. An array has a length and
  elements; \<open>null\<close> has no properties at all; a number or a boolean can be read but has
  no \<open>length\<close>. (Strings and objects as \<open>params\<close> are not represented.)\<close>

datatype params_val =
    PArr "jsval list"
  | PNull
  | PNum int
  | PBool bool

text \<open>A decoded inbound object: the five members the handler reads. \<open>id\<close> is whatever
  value the server sent; the wire format gives \<open>notification\<close> as a string.\<close>

record message =
  m_notification :: "string option"
  m_params :: "params_val option"
  m_id :: "jsval option"
  m_error :: "jsval option"
  m_result :: "jsval option"

text \<open>What \<open>JSON.parse\<close> can return: \<open>null\<close>, an object, or another value (number,
  string, boolean, array), on which every member read above gives \<open>undefined\<close>.\<close>

datatype decoded = DNull | DObject message | DOther

datatype outbound =
    Request string jsval nat
  | Notification string jsval

datatype reason =
    SocketNotReady
  | TransportError string
  | ServerError jsval

datatype ('p, 'l) effect =
    Reject 'p reason
  | Resolve 'p "jsval option"
  | Transmit outbound
  | Invoke 'l "jsval list"
  | SetTimeout nat
  | NewWebSocket
  | SocketClose int

subsection \<open>The client object\<close>

text \<open>A slot of \<open>queue\<close>: the pair \<open>[resolve, reject]\<close> of the promise \<open>p\<close>, or \<open>null\<close>
  once it has been used. An id that was never written is absent from the map.\<close>

datatype 'p slot = Callbacks 'p | Null

record ('p, 'l) client =
  queue :: "nat \<rightharpoonup> 'p slot"
  rpc_id :: nat
  ready :: bool
  reconnect :: bool
  reconnect_interval :: nat
  max_reconnects :: nat
  current_reconnects :: nat
  listeners :: "string \<Rightarrow> 'l list"

text \<open>The constructor, without the connection it may start.\<close>

definition new_client :: "bool \<Rightarrow> nat \<Rightarrow> nat \<Rightarrow> (string \<Rightarrow> 'l list) \<Rightarrow> ('p, 'l) client" where
  "new_client rc interval maxr ls =
     \<lparr> queue = Map.empty, rpc_id = 0, ready = False, reconnect = rc,
       reconnect_interval = interval, max_reconnects = maxr,
       current_reconnects = 0, listeners = ls \<rparr>"

text \<open>\<open>emit(name, args...)\<close> of the event emitter: every listener attached to the name
  is called once, in the order of attachment, with the arguments.\<close>

definition emit :: "('p, 'l) client \<Rightarrow> string \<Rightarrow> jsval list \<Rightarrow> ('p, 'l) effect list" where
  "emit c name args = map (\<lambda>l. Invoke l args) (listeners c name)"

text \<open>\<open>params || null\<close>.\<close>

definition params_or_null :: "jsval option \<Rightarrow> jsval" where
  "params_or_null ps = (case ps of None \<Rightarrow> JNull | Some v \<Rightarrow> if truthy v then v else JNull)"

subsection \<open>call and notify\<close>

text \<open>\<open>call\<close>: the body of the promise \<open>p\<close> it returns. The callback given to
  \<open>socket.send\<close> runs later, once, with the transport's verdict: \<open>call_sent\<close>.\<close>

definition call :: "('p, 'l) client \<Rightarrow> 'p \<Rightarrow> string \<Rightarrow> jsval option
    \<Rightarrow> ('p, 'l) client \<times> ('p, 'l) effect list" where
  "call c p method ps =
     (if \<not> ready c then (c, [Reject p SocketNotReady])
      else let rid = rpc_id c + 1;
               c' = c\<lparr>rpc_id := rid\<rparr>
           in (c', [Transmit (Request method (params_or_null ps) rid)]))"

definition call_sent :: "('p, 'l) client \<Rightarrow> nat \<Rightarrow> 'p \<Rightarrow> string option
    \<Rightarrow> ('p, 'l) client \<times> ('p, 'l) effect list" where
  "call_sent c rid p err =
     (case err of
        Some e \<Rightarrow> (c, [Reject p (TransportError e)])
      | None \<Rightarrow> (c\<lparr>queue := (queue c)(rid \<mapsto> Callbacks p)\<rparr>, []))"

definition notify :: "('p, 'l) client \<Rightarrow> 'p \<Rightarrow> string \<Rightarrow> jsval option
    \<Rightarrow> ('p, 'l) client \<times> ('p, 'l) effect list" where
  "notify c p method ps =
     (if \<not> ready c then (c, [Reject p SocketNotReady])
      else (c, [Transmit (Notification method (params_or_null ps))]))"

definition notify_sent :: "('p, 'l) client \<Rightarrow> 'p \<Rightarrow> string option
    \<Rightarrow> ('p, 'l) client \<times> ('p, 'l) effect list" where
  "notify_sent c p err =
     (case err of
        Some e \<Rightarrow> (c, [Reject p (TransportError e)])
      | None \<Rightarrow> (c, [Resolve p None]))"

definition close :: "('p, 'l) client \<Rightarrow> int option
    \<Rightarrow> ('p, 'l) client \<times> ('p, 'l) effect list" where
  "close c code =
     (c, [SocketClose (case code of None \<Rightarrow> 1000 | Some k \<Rightarrow> if k \<noteq> 0 then k else 1000)])"

subsection \<open>The handlers installed by \_connect\<close>

definition connect :: "('p, 'l) client \<Rightarrow> ('p, 'l) client \<times> ('p, 'l) effect list" where
  "connect c = (c, [NewWebSocket])"

definition on_open :: "('p, 'l) client \<Rightarrow> ('p, 'l) client \<times> ('p, 'l) effect list" where
  "on_open c =
     (let c1 = c\<lparr>ready := True\<rparr>
      in (c1\<lparr>current_reconnects := 0\<rparr>, emit c1 ''open'' []))"

text \<open>The response part of the message handler: the lines after the notification
  branch. \<open>this.queue[message.id]\<close> is falsy for \<open>null\<close> and for a key found neither in
  the queue nor in \<open>Object.prototype\<close>. For a key found in \<open>Object.prototype\<close> the test
  passes, and the call of its member \<open>0\<close> or \<open>1\<close>, which is \<open>undefined\<close>, throws.\<close>

definition respond :: "('p, 'l) client \<Rightarrow> message
    \<Rightarrow> (error + ('p, 'l) client) \<times> ('p, 'l) effect list" where
  "respond c m =
     (case property_key (m_id m) of
        Inl e \<Rightarrow> (Inl e, [])
      | Inr s \<Rightarrow>
          (case numeral_key s of
             None \<Rightarrow> if s \<in> set object_prototype then (Inl TypeError, []) else (Inr c, [])
           | Some k \<Rightarrow>
               (case queue c k of
                  None \<Rightarrow> (Inr c, [])
                | Some Null \<Rightarrow> (Inr c, [])
                | Some (Callbacks p) \<Rightarrow>
                    (Inr (c\<lparr>queue := (queue c)(k \<mapsto> Null)\<rparr>),
                     [case m_error m of
                        None \<Rightarrow> Resolve p (m_result m)
                      | Some e \<Rightarrow> if truthy e then Reject p (ServerError e)
                                 else Resolve p (m_result m)]))))"

text \<open>The notification branch is taken when \<open>message.notification\<close> is truthy and at
  least one listener is attached to that name: \<open>forwards\<close> gives the name then.\<close>

definition forwards :: "('p, 'l) client \<Rightarrow> message \<Rightarrow> string option" where
  "forwards c m =
     (case m_notification m of
        None \<Rightarrow> None
      | Some n \<Rightarrow> if n \<noteq> [] \<and> listeners c n \<noteq> [] then Some n else None)"

text \<open>Inside the branch: \<open>message.params.length\<close> throws when \<open>params\<close> is
  \<open>undefined\<close> or \<open>null\<close>; where the length is \<open>undefined\<close> or 0 the event is emitted
  with no argument; otherwise the elements are the arguments.\<close>

definition forward :: "('p, 'l) client \<Rightarrow> string \<Rightarrow> params_val option
    \<Rightarrow> error + ('p, 'l) effect list" where
  "forward c n ps =
     (case ps of
        None \<Rightarrow> Inl TypeError
      | Some PNull \<Rightarrow> Inl TypeError
      | Some (PNum k) \<Rightarrow> Inr (emit c n [])
      | Some (PBool b) \<Rightarrow> Inr (emit c n [])
      | Some (PArr xs) \<Rightarrow> Inr (emit c n xs))"

text \<open>The message handler on the result of \<open>JSON.parse\<close>; \<open>None\<close> is a payload on which
  \<open>JSON.parse\<close> throws. The result is the client afterwards, or the exception that
  leaves the handler, and the effects performed.\<close>

definition on_message :: "('p, 'l) client \<Rightarrow> decoded option
    \<Rightarrow> (error + ('p, 'l) client) \<times> ('p, 'l) effect list" where
  "on_message c d =
     (case d of
        None \<Rightarrow> (Inr c, [])
      | Some DNull \<Rightarrow> (Inl TypeError, [])
      | Some DOther \<Rightarrow> (Inr c, [])
      | Some (DObject m) \<Rightarrow>
          (case forwards c m of
             Some n \<Rightarrow>
               (case forward c n (m_params m) of
                  Inl e \<Rightarrow> (Inl e, [])
                | Inr es \<Rightarrow> (Inr c, es))
           | None \<Rightarrow> respond c m))"

text \<open>The payload as it arrives, with the decoder of the platform as a parameter.\<close>

definition on_payload :: "(string \<Rightarrow> decoded option) \<Rightarrow> ('p, 'l) client \<Rightarrow> string
    \<Rightarrow> (error + ('p, 'l) client) \<times> ('p, 'l) effect list" where
  "on_payload JSON_parse c payload = on_message c (JSON_parse payload)"

text \<open>The error handler re-emits the transport's error as the local \<open>error\<close> event; the
  event emitter throws the error itself when nobody listens to that event.\<close>

definition on_error :: "('p, 'l) client \<Rightarrow> string
    \<Rightarrow> (error + ('p, 'l) client) \<times> ('p, 'l) effect list" where
  "on_error c e =
     (if listeners c ''error'' = [] then (Inl (Unhandled e), [])
      else (Inr c, emit c ''error'' [JStr e]))"

text \<open>The close handler. In the source the condition is written
  \<open>this.reconnect && (this.max_reconnects > this.current_reconnects) || this.max_reconnects === 0\<close>,
  and \<open>&&\<close> binds tighter than \<open>||\<close>.\<close>

definition on_close :: "('p, 'l) client \<Rightarrow> int \<Rightarrow> string
    \<Rightarrow> ('p, 'l) client \<times> ('p, 'l) effect list" where
  "on_close c code msg =
     (let c1 = c\<lparr>ready := False\<rparr>;
          es = emit c1 ''close'' [JNum code, JStr msg]
      in if code = 1000 then (c1, es)
         else let c2 = c1\<lparr>current_reconnects := current_reconnects c1 + 1\<rparr>
              in if (reconnect c2 \<and> max_reconnects c2 > current_reconnects c2)
                    \<or> max_reconnects c2 = 0
                 then (c2, es @ [SetTimeout (reconnect_interval c2)])
                 else (c2, es))"

subsection \<open>Runs of the client\<close>

text \<open>What can happen to a client, one event at a time: a method is called, the
  transport answers a send, a handler of the socket fires, or the reconnect timer
  fires and runs \<open>_connect\<close> again.\<close>

datatype 'p event =
    EvCall 'p string "jsval option"
  | EvCallSent nat 'p "string option"
  | EvNotify 'p string "jsval option"
  | EvNotifySent 'p "string option"
  | EvCloseCall "int option"
  | EvOpen
  | EvMessage "decoded option"
  | EvError string
  | EvClose int string
  | EvTimer

definition ok :: "('p, 'l) client \<times> ('p, 'l) effect list
    \<Rightarrow> (error + ('p, 'l) client) \<times> ('p, 'l) effect list" where
  "ok r = (Inr (fst r), snd r)"

fun step :: "('p, 'l) client \<Rightarrow> 'p event
    \<Rightarrow> (error + ('p, 'l) client) \<times> ('p, 'l) effect list" where
  "step c (EvCall p method ps) = ok (call c p method ps)"
| "step c (EvCallSent rid p err) = ok (call_sent c rid p err)"
| "step c (EvNotify p method ps) = ok (notify c p method ps)"
| "step c (EvNotifySent p err) = ok (notify_sent c p err)"
| "step c (EvCloseCall code) = ok (close c code)"
| "step c EvOpen = ok (on_open c)"
| "step c (EvMessage d) = on_message c d"
| "step c (EvError e) = on_error c e"
| "step c (EvClose code msg) = ok (on_close c code msg)"
| "step c EvTimer = ok (connect c)"

text \<open>A run stops at the first exception that leaves a handler.\<close>

fun run :: "('p, 'l) client \<Rightarrow> 'p event list
    \<Rightarrow> (error + ('p, 'l) client) \<times> ('p, 'l) effect list" where
  "run c [] = (Inr c, [])"
| "run c (e # es) =
     (case step c e of
        (Inl x, fx) \<Rightarrow> (Inl x, fx)
      | (Inr c', fx) \<Rightarrow> (case run c' es of (r, fx') \<Rightarrow> (r, fx @ fx')))"

fun is_timer :: "('p, 'l) effect \<Rightarrow> bool" where
  "is_timer (SetTimeout k) = True"
| "is_timer _ = False"

fun is_transmit :: "('p, 'l) effect \<Rightarrow> bool" where
  "is_transmit (Transmit x) = True"
| "is_transmit _ = False"

fun is_settle :: "('p, 'l) effect \<Rightarrow> bool" where
  "is_settle (Resolve p v) = True"
| "is_settle (Reject p r) = True"
| "is_settle _ = False"


text \<open>The connection state of the specification (its section 3), followed along the
  events of a run as the specification words the transitions: \<open>Disconnected\<close> to
  \<open>Connecting\<close> on a connect attempt, \<open>Connecting\<close> to \<open>Open\<close> on the transport's open,
  \<open>Open\<close> or \<open>Connecting\<close> to \<open>Disconnected\<close> on the transport's close, \<open>Open\<close> to
  \<open>Closing\<close> on a local \<open>close()\<close> and from there to \<open>Disconnected\<close>. The client itself
  keeps no such state: it has the flag \<open>ready\<close>.\<close>

datatype connection_state = Disconnected | Connecting | Open | Closing

fun spec_transition :: "connection_state \<Rightarrow> 'p event \<Rightarrow> connection_state" where
  "spec_transition Disconnected EvTimer = Connecting"
| "spec_transition Connecting EvOpen = Open"
| "spec_transition Open (EvClose code msg) = Disconnected"
| "spec_transition Connecting (EvClose code msg) = Disconnected"
| "spec_transition Closing (EvClose code msg) = Disconnected"
| "spec_transition Open (EvCloseCall code) = Closing"
| "spec_transition s e = s"

definition spec_connection_state :: "'p event list \<Rightarrow> connection_state" where
  "spec_connection_state es = foldl spec_transition Disconnected es"

text \<open>The correlation ids of the requests handed to the transport, in order.\<close>

fun allocated :: "('p, 'l) effect list \<Rightarrow> nat list" where
  "allocated [] = []"
| "allocated (Transmit (Request method ps i) # es) = i # allocated es"
| "allocated (e # es) = allocated es"

text \<open>The number of timers armed by the effects of a run: each one is a reconnection
  attempt, since the timer's body is \<open>_connect\<close>.\<close>

definition attempts :: "('p, 'l) effect list \<Rightarrow> nat" where
  "attempts es = length (filter is_timer es)"

text \<open>A client with three calls registered, and a success response, for the examples.\<close>

definition three_pending :: "(nat, nat) client" where
  "three_pending =
     (new_client True 1000 5 (\<lambda>n. []))\<lparr>ready := True, rpc_id := 3,
        queue := [1 \<mapsto> Callbacks 10, 2 \<mapsto> Callbacks 20, 3 \<mapsto> Callbacks 30]\<rparr>"

definition response :: "jsval \<Rightarrow> jsval \<Rightarrow> message" where
  "response i v = \<lparr>m_notification = None, m_params = None, m_id = Some i,
      m_error = None, m_result = Some v\<rparr>"

text \<open>The effects that call a callback of the promise \<open>p\<close>.\<close>

fun settles :: "'p \<Rightarrow> ('p, 'l) effect \<Rightarrow> bool" where
  "settles p (Resolve q v) = (q = p)"
| "settles p (Reject q r) = (q = p)"
| "settles p _ = False"

text \<open>A client with two listeners on the event \<open>tick\<close>, and a pushed notification, for
  the examples.\<close>

definition ticking :: "(nat, nat) client" where
  "ticking = (new_client True 1000 5 (\<lambda>n. if n = ''tick'' then [1, 2] else []))\<lparr>ready := True\<rparr>"

definition pushed :: "string \<Rightarrow> params_val option \<Rightarrow> message" where
  "pushed n ps = \<lparr>m_notification = Some n, m_params = ps, m_id = None,
      m_error = None, m_result = None\<rparr>"


section \<open>Properties\<close>

lemma emit_all_invoke: "filter is_timer (emit c n xs) = []"
  by (simp add: emit_def filter_empty_conv)

text \<open>
  C7. After the transport closes with code 1000 the close handler only clears
  \<open>ready\<close> and emits the local \<open>close\<close> event: no timer is armed (no reconnection is
  scheduled) and the attempt counter keeps its value.
\<close>

theorem close_1000_halts:
  "on_close c 1000 msg = (c\<lparr>ready := False\<rparr>, emit (c\<lparr>ready := False\<rparr>) ''close'' [JNum 1000, JStr msg])
   \<and> filter is_timer (snd (on_close c 1000 msg)) = []
   \<and> current_reconnects (fst (on_close c 1000 msg)) = current_reconnects c"
  by (simp add: on_close_def Let_def emit_all_invoke)

text \<open>
  C8. A payload on which \<open>JSON.parse\<close> throws is discarded: the handler returns
  normally, performs no effect (no callback of a pending call, no local event, nothing
  sent), and leaves every field of the client as it was.
\<close>

theorem malformed_payload_discarded:
  "JSON_parse payload = None \<Longrightarrow> on_payload JSON_parse c payload = (Inr c, [])"
  by (simp add: on_payload_def on_message_def)

theorem malformed_payload_discarded_witness:
  "on_payload (\<lambda>s. if s = ''{}'' then Some (DObject \<lparr>m_notification = None, m_params = None,
        m_id = None, m_error = None, m_result = None\<rparr>) else None)
      (new_client True 1000 5 (\<lambda>n. []) :: (nat, nat) client) ''{not json'' =
   (Inr (new_client True 1000 5 (\<lambda>n. [])), [])"
  using malformed_payload_discarded [of "\<lambda>s. if s = ''{}'' then Some (DObject \<lparr>m_notification = None, m_params = None,
        m_id = None, m_error = None, m_result = None\<rparr>) else None" "''{not json''"
        "new_client True 1000 5 (\<lambda>n. [])"]
  by simp

subsection \<open>Reconnection\<close>

lemma attempts_emit: "attempts (emit c n xs) = 0"
  by (simp add: attempts_def emit_all_invoke)

lemma attempts_append: "attempts (es @ fs) = attempts es + attempts fs"
  by (simp add: attempts_def)

text \<open>What the close handler does, for every client and close code: the condition as
  the source evaluates it, after the increment.\<close>

lemma on_close_attempts:
  "attempts (snd (on_close c code msg)) =
     (if code \<noteq> 1000 \<and>
         ((reconnect c \<and> max_reconnects c > current_reconnects c + 1) \<or> max_reconnects c = 0)
      then 1 else 0)"
  by (simp add: on_close_def Let_def attempts_append attempts_emit) (simp add: attempts_def)

lemma on_close_counter:
  "current_reconnects (fst (on_close c code msg)) =
     (if code = 1000 then current_reconnects c else current_reconnects c + 1)"
  by (simp add: on_close_def Let_def)

lemma on_close_config:
  "reconnect (fst (on_close c code msg)) = reconnect c
   \<and> max_reconnects (fst (on_close c code msg)) = max_reconnects c"
  by (simp add: on_close_def Let_def)

text \<open>
  C1. The claim: after an abnormal closure a reconnection is scheduled if and only if
  reconnection is enabled and (the attempt count is under the cap or the cap is 0); in
  particular never when reconnection is disabled. The handler evaluated on a client
  built with \<open>reconnect = false\<close> and \<open>max_reconnects = 0\<close>, closed with code 1006: it
  arms the timer.
\<close>

theorem disabled_unlimited_still_reconnects:
  "\<not> reconnect (new_client False 1000 0 (\<lambda>n. []) :: (nat, nat) client)
   \<and> snd (on_close (new_client False 1000 0 (\<lambda>n. []) :: (nat, nat) client) 1006 []) = [SetTimeout 1000]"
  by (simp add: on_close_def new_client_def Let_def emit_def)

text \<open>Closures that follow one another with no \<open>open\<close> in between: every reconnection
  fails and the transport reports it as a closure with the same code.\<close>

lemma run_close_snd:
  "snd (run c (EvClose code msg # es)) =
     snd (on_close c code msg) @ snd (run (fst (on_close c code msg)) es)"
  by (simp add: ok_def split: prod.splits)

lemma run_closures_unlimited:
  "max_reconnects c = 0 \<Longrightarrow> code \<noteq> 1000 \<Longrightarrow>
   attempts (snd (run c (replicate n (EvClose code msg)))) = n"
proof (induction n arbitrary: c)
  case 0
  then show ?case by (simp add: attempts_def)
next
  case (Suc n)
  let ?c' = "fst (on_close c code msg)"
  have m: "max_reconnects ?c' = 0"
    using Suc.prems by (simp add: on_close_config)
  have one: "attempts (snd (on_close c code msg)) = 1"
    using Suc.prems by (simp add: on_close_attempts)
  have "attempts (snd (run ?c' (replicate n (EvClose code msg)))) = n"
    using Suc.IH [OF m Suc.prems(2)] .
  with one show ?case
    by (simp add: run_close_snd attempts_append del: run.simps)
qed

lemma run_closures_capped:
  "reconnect c \<Longrightarrow> max_reconnects c \<noteq> 0 \<Longrightarrow> code \<noteq> 1000 \<Longrightarrow>
   attempts (snd (run c (replicate n (EvClose code msg)))) =
     min n (max_reconnects c - 1 - current_reconnects c)"
proof (induction n arbitrary: c)
  case 0
  then show ?case by (simp add: attempts_def)
next
  case (Suc n)
  let ?c' = "fst (on_close c code msg)"
  have r: "reconnect ?c'" and m: "max_reconnects ?c' \<noteq> 0"
    using Suc.prems by (simp_all add: on_close_config)
  have k: "current_reconnects ?c' = current_reconnects c + 1"
    using Suc.prems by (simp add: on_close_counter)
  have mm: "max_reconnects ?c' = max_reconnects c"
    by (simp add: on_close_config)
  have one: "attempts (snd (on_close c code msg)) =
      (if max_reconnects c > current_reconnects c + 1 then 1 else 0)"
    using Suc.prems by (simp add: on_close_attempts)
  have "attempts (snd (run ?c' (replicate n (EvClose code msg)))) =
      min n (max_reconnects c - 1 - (current_reconnects c + 1))"
    using Suc.IH [OF r m Suc.prems(3)] k mm by simp
  with one have "attempts (snd (run c (replicate (Suc n) (EvClose code msg)))) =
      (if max_reconnects c > current_reconnects c + 1 then 1 else 0)
      + min n (max_reconnects c - 1 - (current_reconnects c + 1))"
    by (simp add: run_close_snd attempts_append del: run.simps)
  also have "\<dots> = min (Suc n) (max_reconnects c - 1 - current_reconnects c)"
    by (cases "max_reconnects c > current_reconnects c + 1") auto
  finally show ?case .
qed

text \<open>
  C2. The claim: with \<open>max_reconnects = 2\<close> and a connection that keeps closing with a
  code other than 1000, exactly 2 reconnection attempts occur before the client gives
  up. The run: the first connection opens and closes with 1006, the timer fires and
  connects again, the new socket closes with 1006. The effects are one timer and the
  one socket it creates; the second closure arms nothing, so the client has given up
  after a single attempt.
\<close>

theorem max_two_gives_one_attempt:
  "snd (run (new_client True 1000 2 (\<lambda>n. []) :: (nat, nat) client)
          [EvOpen, EvClose 1006 [], EvTimer, EvClose 1006 []])
     = [SetTimeout 1000, NewWebSocket]
   \<and> attempts (snd (run (new_client True 1000 2 (\<lambda>n. []) :: (nat, nat) client)
          (EvOpen # replicate 7 (EvClose 1006 [])))) = 1"
  by (simp add: on_close_def on_open_def connect_def new_client_def Let_def emit_def ok_def
      attempts_def eval_nat_numeral)

subsection \<open>call and notify\<close>

text \<open>
  C3, as claimed: while the connection is not \<open>Open\<close>, \<open>call\<close> and \<open>notify\<close> reject at
  once and nothing is transmitted. After a local \<open>close()\<close> the specification's state is
  \<open>Closing\<close>, but \<open>close\<close> does not clear \<open>ready\<close>: a \<open>call\<close> and a \<open>notify\<close> made then
  pass the test, the call takes an id, and both hand their message to the transport.
\<close>

theorem call_while_closing_counterexample:
  "spec_connection_state ([EvTimer, EvOpen, EvCloseCall None] :: nat event list) = Closing
   \<and> snd (run (new_client True 1000 5 (\<lambda>n. []) :: (nat, nat) client)
          [EvTimer, EvOpen, EvCloseCall None, EvCall 7 ''late'' None, EvNotify 8 ''bye'' None])
       = [NewWebSocket, SocketClose 1000,
          Transmit (Request ''late'' JNull 1), Transmit (Notification ''bye'' JNull)]"
  by (simp add: spec_connection_state_def new_client_def ok_def connect_def on_open_def
      close_def call_def notify_def emit_def Let_def params_or_null_def)

text \<open>
  C3, amended. While the flag \<open>ready\<close> is false, \<open>call\<close> and \<open>notify\<close> reject their promise
  at once and hand nothing to the transport, and the client is unchanged. While it is
  true, \<open>call\<close> hands one request with the freshly allocated id to the transport and
  registers nothing yet: the entry for that id is written by the send callback when the
  transport reports success, and when it reports a failure the callback rejects the
  promise of that call and leaves the queue as it was. The flag is set by the
  transport's open event and cleared by its close event; a local \<open>close()\<close> leaves it as
  it is.
\<close>

theorem call_notify_readiness:
  "(\<not> ready c \<longrightarrow>
      call c p method ps = (c, [Reject p SocketNotReady])
    \<and> notify c p method ps = (c, [Reject p SocketNotReady])
    \<and> filter is_transmit (snd (call c p method ps)) = []
    \<and> filter is_transmit (snd (notify c p method ps)) = [])
   \<and> (ready c \<longrightarrow>
      snd (call c p method ps) = [Transmit (Request method (params_or_null ps) (rpc_id c + 1))]
    \<and> queue (fst (call c p method ps)) = queue c
    \<and> snd (notify c p method ps) = [Transmit (Notification method (params_or_null ps))])
   \<and> call_sent c' rid p None = (c'\<lparr>queue := (queue c')(rid \<mapsto> Callbacks p)\<rparr>, [])
   \<and> call_sent c' rid p (Some e) = (c', [Reject p (TransportError e)])
   \<and> queue (fst (call_sent c' rid p (Some e))) rid = queue c' rid
   \<and> ready (fst (on_open c'))
   \<and> \<not> ready (fst (on_close c' code msg))
   \<and> ready (fst (close c' code')) = ready c'"
  by (simp add: call_def notify_def call_sent_def Let_def on_open_def on_close_def close_def)

theorem call_notify_readiness_witness:
  "\<not> ready (new_client True 1000 5 (\<lambda>n. []) :: (nat, nat) client)
   \<and> call (new_client True 1000 5 (\<lambda>n. []) :: (nat, nat) client) 7 ''sum'' None
       = (new_client True 1000 5 (\<lambda>n. []), [Reject 7 SocketNotReady])
   \<and> ready (fst (on_open (new_client True 1000 5 (\<lambda>n. []) :: (nat, nat) client)))
   \<and> snd (call (fst (on_open (new_client True 1000 5 (\<lambda>n. []) :: (nat, nat) client))) 7 ''sum'' None)
       = [Transmit (Request ''sum'' JNull 1)]"
proof -
  let ?c = "new_client True 1000 5 (\<lambda>n. []) :: (nat, nat) client"
  have a: "\<not> ready ?c" by (simp add: new_client_def)
  have b: "ready (fst (on_open ?c))" by (simp add: on_open_def Let_def)
  have r: "rpc_id (fst (on_open ?c)) = 0" by (simp add: on_open_def Let_def new_client_def)
  from a call_notify_readiness [of ?c 7 "''sum''" None ?c 0 "''down''"]
  have 1: "call ?c 7 ''sum'' None = (?c, [Reject 7 SocketNotReady])" by blast
  from b call_notify_readiness [of "fst (on_open ?c)" 7 "''sum''" None ?c 0 "''down''"]
  have 2: "snd (call (fst (on_open ?c)) 7 ''sum'' None)
      = [Transmit (Request ''sum'' (params_or_null None) (rpc_id (fst (on_open ?c)) + 1))]" by blast
  from a b 1 2 r show ?thesis by (simp add: params_or_null_def)
qed

subsection \<open>Property keys\<close>

text \<open>A natural number written in decimal spells that number, and no member of
  \<open>Object.prototype\<close> is a numeral.\<close>

lemma digit_of_digit: "d < 10 \<Longrightarrow> digit_of (digit d) = Some d"
proof -
  assume "d < 10"
  then have "d \<in> {0, 1, 2, 3, 4, 5, 6, 7, 8, 9}" by auto
  then show ?thesis
    by (auto simp: digit_of_def digit_def)
qed

lemma digit_zero: "d < 10 \<Longrightarrow> digit d = CHR ''0'' \<Longrightarrow> d = 0"
proof -
  assume "d < 10"
  then have "d \<in> {0, 1, 2, 3, 4, 5, 6, 7, 8, 9}" by auto
  moreover assume "digit d = CHR ''0''"
  ultimately show ?thesis
    by (auto simp: digit_def)
qed

lemma number_of_snoc:
  "number_of (cs @ [c]) acc =
     (case number_of cs acc of None \<Rightarrow> None
      | Some v \<Rightarrow> (case digit_of c of None \<Rightarrow> None | Some d \<Rightarrow> Some (10 * v + d)))"
  by (induction cs arbitrary: acc) (simp_all split: option.splits)

lemma number_of_decimal: "number_of (decimal n) 0 = Some n"
proof (induction n rule: decimal.induct)
  case (1 n)
  show ?case
  proof (cases "n < 10")
    case True
    then show ?thesis
      by (subst decimal.simps) (simp add: digit_of_digit)
  next
    case False
    with "1.IH" have "number_of (decimal (n div 10)) 0 = Some (n div 10)" by simp
    with False show ?thesis
      by (subst decimal.simps) (simp add: number_of_snoc digit_of_digit)
  qed
qed

lemma decimal_not_empty: "decimal n \<noteq> []"
  by (subst decimal.simps) simp

lemma decimal_leading: "hd (decimal n) = CHR ''0'' \<Longrightarrow> n = 0"
proof (induction n rule: decimal.induct)
  case (1 n)
  show ?case
  proof (cases "n < 10")
    case True
    with "1.prems" have "digit n = CHR ''0''"
      by (subst (asm) decimal.simps) simp
    with True show ?thesis by (rule digit_zero)
  next
    case False
    with "1.prems" have "hd (decimal (n div 10)) = CHR ''0''"
      by (subst (asm) decimal.simps) (simp add: decimal_not_empty)
    with "1.IH" False have "n div 10 = 0" by simp
    with False show ?thesis by simp
  qed
qed

lemma decimal_tail: "tl (decimal 0) = []"
  by (subst decimal.simps) simp

lemma numeral_key_decimal: "numeral_key (decimal k) = Some k"
proof -
  have "\<not> (hd (decimal k) = CHR ''0'' \<and> tl (decimal k) \<noteq> [])"
    using decimal_leading [of k] decimal_tail by auto
  then show ?thesis
    by (simp add: numeral_key_def decimal_not_empty number_of_decimal)
qed

lemma property_key_nat: "property_key (Some (JNum (int k))) = Inr (decimal k)"
  by (simp add: property_key_def)


subsection \<open>Correlation ids and the message handler\<close>


lemma allocated_emit: "allocated (emit c n xs) = []"
proof -
  have "allocated (map (\<lambda>l. Invoke l xs) ls) = []" for ls :: "'b list"
    by (induction ls) simp_all
  then show ?thesis by (simp add: emit_def)
qed

lemma settle_emit: "filter is_settle (emit c n xs) = []"
  by (simp add: emit_def filter_empty_conv)

lemma respond_cases:
  "respond c m = (Inr c, [])
   \<or> (\<exists>e. respond c m = (Inl e, []))
   \<or> (\<exists>k p. queue c k = Some (Callbacks p)
        \<and> respond c m = (Inr (c\<lparr>queue := (queue c)(k \<mapsto> Null)\<rparr>),
             [case m_error m of None \<Rightarrow> Resolve p (m_result m)
              | Some e \<Rightarrow> if truthy e then Reject p (ServerError e) else Resolve p (m_result m)]))"
proof (cases "property_key (m_id m)")
  case (Inl e)
  then show ?thesis by (simp add: respond_def)
next
  case (Inr s)
  show ?thesis
  proof (cases "numeral_key s")
    case None
    with Inr show ?thesis by (simp add: respond_def)
  next
    case (Some k)
    show ?thesis
    proof (cases "queue c k")
      case None
      with Inr Some show ?thesis by (simp add: respond_def)
    next
      case (Some sl)
      show ?thesis
      proof (cases sl)
        case Null
        with Inr \<open>numeral_key s = Some k\<close> \<open>queue c k = Some sl\<close> show ?thesis
          by (simp add: respond_def)
      next
        case (Callbacks p)
        with Inr \<open>numeral_key s = Some k\<close> \<open>queue c k = Some sl\<close>
        have "queue c k = Some (Callbacks p)
          \<and> respond c m = (Inr (c\<lparr>queue := (queue c)(k \<mapsto> Null)\<rparr>),
             [case m_error m of None \<Rightarrow> Resolve p (m_result m)
              | Some e \<Rightarrow> if truthy e then Reject p (ServerError e) else Resolve p (m_result m)])"
          by (simp add: respond_def)
        then show ?thesis by blast
      qed
    qed
  qed
qed

lemma forward_alloc: "forward c n ps = Inr es \<Longrightarrow> allocated es = [] \<and> filter is_settle es = []"
  by (auto simp: forward_def allocated_emit settle_emit split: option.splits params_val.splits)



lemma on_message_respond:
  "forwards c m = None \<Longrightarrow>
   on_message c (Some (DObject m)) = respond c m"
  by (simp add: on_message_def)





lemma respond_registered:
  "m_id m = Some (JNum (int i)) \<Longrightarrow> queue c i = Some (Callbacks p) \<Longrightarrow>
   respond c m = (Inr (c\<lparr>queue := (queue c)(i \<mapsto> Null)\<rparr>),
      [case m_error m of None \<Rightarrow> Resolve p (m_result m)
       | Some e \<Rightarrow> if truthy e then Reject p (ServerError e) else Resolve p (m_result m)])"
  by (simp add: respond_def property_key_nat numeral_key_decimal)



text \<open>The test of the specification: calls 1, 2, 3, answered in the order 3, 1, 2.\<close>

lemma responses_out_of_order:
  "snd (run (new_client True 1000 5 (\<lambda>n. []) :: (nat, nat) client)
     [EvOpen,
      EvCall 10 ''a'' None, EvCallSent 1 10 None,
      EvCall 20 ''b'' None, EvCallSent 2 20 None,
      EvCall 30 ''c'' None, EvCallSent 3 30 None,
      EvMessage (Some (DObject (response (JNum 3) (JStr ''third'')))),
      EvMessage (Some (DObject (response (JNum 1) (JStr ''first'')))),
      EvMessage (Some (DObject (response (JNum 2) (JStr ''second''))))])
   = [Transmit (Request ''a'' JNull 1), Transmit (Request ''b'' JNull 2),
      Transmit (Request ''c'' JNull 3),
      Resolve 30 (Some (JStr ''third'')), Resolve 10 (Some (JStr ''first'')),
      Resolve 20 (Some (JStr ''second''))]"
  by (simp add: response_def forwards_def new_client_def ok_def on_open_def call_sent_def
      call_def emit_def Let_def params_or_null_def on_message_def respond_def property_key_def
      decimal.simps digit_def numeral_key_def digit_of_def)

subsection \<open>Settling pending calls\<close>

lemma settles_is_settle: "settles p e \<Longrightarrow> is_settle e"
  by (cases e) simp_all

lemma settles_unique: "settles p e \<Longrightarrow> settles q e \<Longrightarrow> p = q"
  by (cases e) simp_all

lemma no_settle_no_settles: "filter is_settle fx = [] \<Longrightarrow> filter (settles p) fx = []"
  by (auto simp: filter_empty_conv dest: settles_is_settle)

lemma on_message_settle_cases:
  assumes "on_message c d = (r, fx)"
  shows "(filter is_settle fx = [] \<and> (\<forall>c'. r = Inr c' \<longrightarrow> c' = c))
       \<or> (\<exists>i p out. queue c i = Some (Callbacks p)
             \<and> r = Inr (c\<lparr>queue := (queue c)(i \<mapsto> Null)\<rparr>) \<and> fx = [out] \<and> settles p out)"
proof (cases d)
  case None
  with assms show ?thesis by (auto simp add: on_message_def)
next
  case (Some x)
  show ?thesis
  proof (cases x)
    case (DObject m)
    show ?thesis
    proof (cases "forwards c m")
      case None
      with Some DObject assms have r: "respond c m = (r, fx)"
        by (simp add: on_message_respond)
      from respond_cases [of c m] show ?thesis
      proof (elim disjE)
        assume "respond c m = (Inr c, [])"
        with r show ?thesis by auto
      next
        assume "\<exists>e. respond c m = (Inl e, [])"
        with r show ?thesis by auto
      next
        assume "\<exists>k p. queue c k = Some (Callbacks p)
          \<and> respond c m = (Inr (c\<lparr>queue := (queue c)(k \<mapsto> Null)\<rparr>),
             [case m_error m of None \<Rightarrow> Resolve p (m_result m)
              | Some e \<Rightarrow> if truthy e then Reject p (ServerError e) else Resolve p (m_result m)])"
        then obtain i p where q: "queue c i = Some (Callbacks p)"
          and e: "respond c m = (Inr (c\<lparr>queue := (queue c)(i \<mapsto> Null)\<rparr>),
             [case m_error m of None \<Rightarrow> Resolve p (m_result m)
              | Some e \<Rightarrow> if truthy e then Reject p (ServerError e) else Resolve p (m_result m)])"
          by blast
        let ?out = "case m_error m of None \<Rightarrow> Resolve p (m_result m)
              | Some e \<Rightarrow> if truthy e then Reject p (ServerError e) else Resolve p (m_result m)"
        have o: "settles p ?out"
          by (simp split: option.splits)
        from e r have "r = Inr (c\<lparr>queue := (queue c)(i \<mapsto> Null)\<rparr>)" "fx = [?out]"
          by simp_all
        with q o show ?thesis by blast
      qed
    next
      case (Some n)
      note n = this
      show ?thesis
      proof (cases "forward c n (m_params m)")
        case (Inl e)
        with n \<open>d = Some x\<close> DObject assms have "r = Inl e" "fx = []"
          by (simp_all add: on_message_def)
        then show ?thesis by simp
      next
        case (Inr es)
        with n \<open>d = Some x\<close> DObject assms have "r = Inr c" "fx = es"
          by (simp_all add: on_message_def)
        with forward_alloc [OF Inr] show ?thesis by simp
      qed
    qed
  qed (use Some assms in \<open>auto simp add: on_message_def\<close>)
qed

lemma run_message_Inl:
  "on_message c d = (Inl x, fx) \<Longrightarrow> snd (run c (map EvMessage (d # ds))) = fx"
  by simp

lemma run_message_Inr:
  "on_message c d = (Inr c', fx) \<Longrightarrow>
   snd (run c (map EvMessage (d # ds))) = fx @ snd (run c' (map EvMessage ds))"
  by (simp split: prod.splits)

lemma absent_never_settled:
  "\<forall>i. queue c i \<noteq> Some (Callbacks p) \<Longrightarrow>
   filter (settles p) (snd (run c (map EvMessage ds))) = []"
proof (induction ds arbitrary: c)
  case Nil
  then show ?case by simp
next
  case (Cons d ds)
  obtain r fx where s: "on_message c d = (r, fx)" by (cases "on_message c d")
  from on_message_settle_cases [OF s] show ?case
  proof
    assume a: "filter is_settle fx = [] \<and> (\<forall>c'. r = Inr c' \<longrightarrow> c' = c)"
    then have f: "filter (settles p) fx = []" by (simp add: no_settle_no_settles)
    show ?thesis
    proof (cases r)
      case (Inl x)
      with s have si: "on_message c d = (Inl x, fx)" by simp
      from f show ?thesis unfolding run_message_Inl [OF si] .
    next
      case (Inr c')
      with a have "c' = c" by simp
      with s Inr have sc: "on_message c d = (Inr c, fx)" by simp
      from f Cons.IH [OF Cons.prems] show ?thesis
        unfolding run_message_Inr [OF sc] filter_append by simp
    qed
  next
    assume "\<exists>i q out. queue c i = Some (Callbacks q)
             \<and> r = Inr (c\<lparr>queue := (queue c)(i \<mapsto> Null)\<rparr>) \<and> fx = [out] \<and> settles q out"
    then obtain i q out where q: "queue c i = Some (Callbacks q)"
      and r: "r = Inr (c\<lparr>queue := (queue c)(i \<mapsto> Null)\<rparr>)" and fx: "fx = [out]"
      and o: "settles q out" by blast
    let ?c' = "c\<lparr>queue := (queue c)(i \<mapsto> Null)\<rparr>"
    from q Cons.prems have "q \<noteq> p" by auto
    with o settles_unique [of p out q] have "\<not> settles p out" by auto
    with fx have f: "filter (settles p) fx = []" by simp
    have n: "\<forall>j. queue ?c' j \<noteq> Some (Callbacks p)"
      using Cons.prems by simp
    from s r have s': "on_message c d = (Inr ?c', fx)" by simp
    from f Cons.IH [OF n] show ?thesis
      unfolding run_message_Inr [OF s'] filter_append by simp
  qed
qed

lemma once_in_run:
  "\<forall>i j q. queue c i = Some (Callbacks q) \<and> queue c j = Some (Callbacks q) \<longrightarrow> i = j \<Longrightarrow>
   length (filter (settles p) (snd (run c (map EvMessage ds)))) \<le> 1"
proof (induction ds arbitrary: c)
  case Nil
  then show ?case by simp
next
  case (Cons d ds)
  obtain r fx where s: "on_message c d = (r, fx)" by (cases "on_message c d")
  from on_message_settle_cases [OF s] show ?case
  proof
    assume a: "filter is_settle fx = [] \<and> (\<forall>c'. r = Inr c' \<longrightarrow> c' = c)"
    then have f: "filter (settles p) fx = []" by (simp add: no_settle_no_settles)
    show ?thesis
    proof (cases r)
      case (Inl x)
      with s have si: "on_message c d = (Inl x, fx)" by simp
      from f show ?thesis unfolding run_message_Inl [OF si] by simp
    next
      case (Inr c')
      with a have "c' = c" by simp
      with s Inr have sc: "on_message c d = (Inr c, fx)" by simp
      from f Cons.IH [OF Cons.prems] show ?thesis
        unfolding run_message_Inr [OF sc] filter_append by simp
    qed
  next
    assume "\<exists>i q out. queue c i = Some (Callbacks q)
             \<and> r = Inr (c\<lparr>queue := (queue c)(i \<mapsto> Null)\<rparr>) \<and> fx = [out] \<and> settles q out"
    then obtain i q out where q: "queue c i = Some (Callbacks q)"
      and r: "r = Inr (c\<lparr>queue := (queue c)(i \<mapsto> Null)\<rparr>)" and fx: "fx = [out]"
      and o: "settles q out" by blast
    let ?c' = "c\<lparr>queue := (queue c)(i \<mapsto> Null)\<rparr>"
    from s r have s': "on_message c d = (Inr ?c', fx)" by simp
    show ?thesis
    proof (cases "q = p")
      case True
      have n: "\<forall>j. queue ?c' j \<noteq> Some (Callbacks p)"
      proof
        fix j
        show "queue ?c' j \<noteq> Some (Callbacks p)"
        proof (cases "j = i")
          case True
          then show ?thesis by simp
        next
          case False
          with Cons.prems q \<open>q = p\<close> have "queue c j \<noteq> Some (Callbacks p)" by blast
          with False show ?thesis by simp
        qed
      qed
      from fx have "length (filter (settles p) fx) \<le> 1" by simp
      with absent_never_settled [OF n] show ?thesis
        unfolding run_message_Inr [OF s'] filter_append by simp
    next
      case False
      with o settles_unique [of p out q] have "\<not> settles p out" by auto
      with fx have f: "filter (settles p) fx = []" by simp
      have inj': "\<forall>a b t. queue ?c' a = Some (Callbacks t) \<and> queue ?c' b = Some (Callbacks t) \<longrightarrow> a = b"
      proof (intro allI impI)
        fix a b t
        assume h: "queue ?c' a = Some (Callbacks t) \<and> queue ?c' b = Some (Callbacks t)"
        then have "a \<noteq> i" "b \<noteq> i" by (auto split: if_splits)
        with h have "queue c a = Some (Callbacks t) \<and> queue c b = Some (Callbacks t)" by simp
        with Cons.prems show "a = b" by blast
      qed
      from f Cons.IH [OF inj'] show ?thesis
        unfolding run_message_Inr [OF s'] filter_append by simp
    qed
  qed
qed

lemma respond_unknown:
  "property_key (m_id m) = Inr s \<Longrightarrow> s \<notin> set object_prototype \<Longrightarrow>
   (\<forall>k. numeral_key s = Some k \<longrightarrow> queue c k = None \<or> queue c k = Some Null) \<Longrightarrow>
   respond c m = (Inr c, [])"
  by (auto simp: respond_def split: option.splits slot.splits)


lemma on_message_forward:
  "forwards c m = Some n \<Longrightarrow>
   on_message c (Some (DObject m)) =
     (case forward c n (m_params m) of Inl e \<Rightarrow> (Inl e, []) | Inr es \<Rightarrow> (Inr c, es))"
  by (simp add: on_message_def)

text \<open>What holds of the settling of pending calls. A response for a registered id that
  reaches the response path calls the callback that the message selects (reject when
  the \<open>error\<close> member is truthy, resolve otherwise), once, and writes \<open>null\<close> over the
  entry. A message whose id spells no entry, or a tombstoned one, and names no member
  of \<open>Object.prototype\<close>, is a no-op on the response path. Over any sequence of inbound
  messages, a promise that is registered under one id is settled at most once.\<close>

lemma settled_at_most_once:
  "(forwards c m = None \<longrightarrow> m_id m = Some (JNum (int k)) \<longrightarrow> queue c k = Some (Callbacks p) \<longrightarrow>
      on_message c (Some (DObject m)) =
        (Inr (c\<lparr>queue := (queue c)(k \<mapsto> Null)\<rparr>),
         [case m_error m of None \<Rightarrow> Resolve p (m_result m)
          | Some e \<Rightarrow> if truthy e then Reject p (ServerError e) else Resolve p (m_result m)]))
   \<and> (forwards c m = None \<longrightarrow> property_key (m_id m) = Inr s \<longrightarrow> s \<notin> set object_prototype \<longrightarrow>
      (\<forall>j. numeral_key s = Some j \<longrightarrow> queue c j = None \<or> queue c j = Some Null) \<longrightarrow>
      on_message c (Some (DObject m)) = (Inr c, []))
   \<and> ((\<forall>i j q. queue c i = Some (Callbacks q) \<and> queue c j = Some (Callbacks q) \<longrightarrow> i = j) \<longrightarrow>
      length (filter (settles p) (snd (run c (map EvMessage ds)))) \<le> 1)"
proof (intro conjI impI)
  assume "forwards c m = None" "m_id m = Some (JNum (int k))" "queue c k = Some (Callbacks p)"
  then show "on_message c (Some (DObject m)) =
        (Inr (c\<lparr>queue := (queue c)(k \<mapsto> Null)\<rparr>),
         [case m_error m of None \<Rightarrow> Resolve p (m_result m)
          | Some e \<Rightarrow> if truthy e then Reject p (ServerError e) else Resolve p (m_result m)])"
    by (simp add: on_message_respond respond_registered)
next
  assume "forwards c m = None" "property_key (m_id m) = Inr s" "s \<notin> set object_prototype"
    "\<forall>j. numeral_key s = Some j \<longrightarrow> queue c j = None \<or> queue c j = Some Null"
  then show "on_message c (Some (DObject m)) = (Inr c, [])"
    by (simp add: on_message_respond respond_unknown)
next
  assume "\<forall>i j q. queue c i = Some (Callbacks q) \<and> queue c j = Some (Callbacks q) \<longrightarrow> i = j"
  then show "length (filter (settles p) (snd (run c (map EvMessage ds)))) \<le> 1"
    by (rule once_in_run)
qed

lemma duplicate_response_ignored:
  "snd (run three_pending (map EvMessage
        [Some (DObject (response (JNum 3) (JStr ''c''))),
         Some (DObject (response (JNum 3) (JStr ''again''))),
         Some (DObject (response (JNum 7) (JStr ''x'')))]))
     = [Resolve 30 (Some (JStr ''c''))]"
  by (simp add: on_message_def forwards_def response_def respond_def three_pending_def
      property_key_def decimal.simps digit_def numeral_key_def digit_of_def object_prototype_def)

text \<open>
  C5. The claim: a pending call is settled at most once, by exactly one of its two
  callbacks, and an inbound message that carries an unknown or already tombstoned id is
  a silent no-op, with no callback and no error. The handler on a response whose id is
  the string \<open>constructor\<close>, which no call was ever registered under: \<open>queue\<close> is a plain
  object, the key is found in \<open>Object.prototype\<close>, the test for an unknown id passes, and
  the handler throws a TypeError. The same happens for \<open>__proto__\<close>.
\<close>

theorem inherited_id_throws:
  "numeral_key ''constructor'' = None
   \<and> on_message three_pending (Some (DObject (response (JStr ''constructor'') (JStr ''x''))))
       = (Inl TypeError, [])
   \<and> on_message (new_client True 1000 5 (\<lambda>n. []) :: (nat, nat) client)
        (Some (DObject (response (JStr ''__proto__'') (JStr ''x''))))
       = (Inl TypeError, [])"
  by (simp add: on_message_def forwards_def response_def respond_def three_pending_def
      new_client_def property_key_def numeral_key_def digit_of_def object_prototype_def)

subsection \<open>Pushed notifications\<close>

lemma forwards_no_listener:
  "m_notification m = Some n \<Longrightarrow> listeners c n = [] \<Longrightarrow> forwards c m = None"
  by (simp add: forwards_def)

lemma forwards_listener:
  "m_notification m = Some n \<Longrightarrow> n \<noteq> [] \<Longrightarrow> listeners c n \<noteq> [] \<Longrightarrow> forwards c m = Some n"
  by (simp add: forwards_def)




text \<open>
  C9. The classification of inbound messages is not exclusive. A decoded message with a
  \<open>notification\<close> member to whose name no listener is attached is not stopped by the
  notification branch: it is handled by the response path. If it also carries the id of
  a registered call, that call is settled by it: rejected when the \<open>error\<close> member is
  truthy, resolved otherwise, and the entry is tombstoned.
\<close>

theorem unheard_notification_falls_through:
  "m_notification m = Some n \<longrightarrow> listeners c n = [] \<longrightarrow>
     on_message c (Some (DObject m)) = respond c m
     \<and> (m_id m = Some (JNum (int k)) \<longrightarrow> queue c k = Some (Callbacks p) \<longrightarrow>
          on_message c (Some (DObject m)) =
            (Inr (c\<lparr>queue := (queue c)(k \<mapsto> Null)\<rparr>),
             [case m_error m of None \<Rightarrow> Resolve p (m_result m)
              | Some e \<Rightarrow> if truthy e then Reject p (ServerError e) else Resolve p (m_result m)]))"
  by (simp add: forwards_no_listener on_message_respond respond_registered)

theorem unheard_notification_falls_through_witness:
  "m_notification ((pushed ''tick'' (Some (PArr [])))\<lparr>m_id := Some (JNum 2), m_result := Some (JNum 5)\<rparr>) = Some ''tick''
   \<and> listeners three_pending ''tick'' = []
   \<and> queue three_pending 2 = Some (Callbacks 20)
   \<and> on_message three_pending
        (Some (DObject ((pushed ''tick'' (Some (PArr [])))\<lparr>m_id := Some (JNum 2), m_result := Some (JNum 5)\<rparr>)))
       = (Inr (three_pending\<lparr>queue := (queue three_pending)(2 \<mapsto> Null)\<rparr>), [Resolve 20 (Some (JNum 5))])
   \<and> on_message three_pending
        (Some (DObject ((pushed ''tick'' (Some (PArr [])))\<lparr>m_id := Some (JNum 2), m_error := Some (JStr ''no'')\<rparr>)))
       = (Inr (three_pending\<lparr>queue := (queue three_pending)(2 \<mapsto> Null)\<rparr>), [Reject 20 (ServerError (JStr ''no''))])"
proof -
  let ?ok = "(pushed ''tick'' (Some (PArr [])))\<lparr>m_id := Some (JNum 2), m_result := Some (JNum 5)\<rparr>"
  let ?err = "(pushed ''tick'' (Some (PArr [])))\<lparr>m_id := Some (JNum 2), m_error := Some (JStr ''no'')\<rparr>"
  have n: "m_notification ?ok = Some ''tick''" "m_notification ?err = Some ''tick''"
    by (simp_all add: pushed_def)
  have l: "listeners three_pending ''tick'' = []"
    by (simp add: three_pending_def new_client_def)
  have i: "m_id ?ok = Some (JNum (int 2))" "m_id ?err = Some (JNum (int 2))"
    by (simp_all add: pushed_def)
  have q: "queue three_pending 2 = Some (Callbacks 20)"
    by (simp add: three_pending_def)
  from unheard_notification_falls_through [of ?ok "''tick''" three_pending 2 20] n l i q
  have "on_message three_pending (Some (DObject ?ok)) =
      (Inr (three_pending\<lparr>queue := (queue three_pending)(2 \<mapsto> Null)\<rparr>),
       [case m_error ?ok of None \<Rightarrow> Resolve 20 (m_result ?ok)
        | Some e \<Rightarrow> if truthy e then Reject 20 (ServerError e) else Resolve 20 (m_result ?ok)])"
    by blast
  then have 1: "on_message three_pending (Some (DObject ?ok)) =
      (Inr (three_pending\<lparr>queue := (queue three_pending)(2 \<mapsto> Null)\<rparr>), [Resolve 20 (Some (JNum 5))])"
    by (simp add: pushed_def)
  from unheard_notification_falls_through [of ?err "''tick''" three_pending 2 20] n l i q
  have "on_message three_pending (Some (DObject ?err)) =
      (Inr (three_pending\<lparr>queue := (queue three_pending)(2 \<mapsto> Null)\<rparr>),
       [case m_error ?err of None \<Rightarrow> Resolve 20 (m_result ?err)
        | Some e \<Rightarrow> if truthy e then Reject 20 (ServerError e) else Resolve 20 (m_result ?err)])"
    by blast
  then have 2: "on_message three_pending (Some (DObject ?err)) =
      (Inr (three_pending\<lparr>queue := (queue three_pending)(2 \<mapsto> Null)\<rparr>), [Reject 20 (ServerError (JStr ''no''))])"
    by (simp add: pushed_def)
  from n(1) l q 1 2 show ?thesis by blast
qed



text \<open>
  C10, as claimed: a message that names an event with a listener and whose \<open>params\<close> has
  no \<open>length\<close> property makes the handler throw a TypeError. It does not for
  \<open>params = 5\<close>: reading \<open>length\<close> of a number gives \<open>undefined\<close>, which is falsy, and
  the listeners are called with no argument.
\<close>

theorem params_without_length_counterexample:
  "forwards ticking (pushed ''tick'' (Some (PNum 5))) = Some ''tick''
   \<and> on_message ticking (Some (DObject (pushed ''tick'' (Some (PNum 5)))))
       = (Inr ticking, [Invoke 1 [], Invoke 2 []])
   \<and> fst (on_message ticking (Some (DObject (pushed ''tick'' (Some (PNum 5)))))) \<noteq> Inl TypeError"
  by (simp add: on_message_def forwards_def forward_def emit_def pushed_def ticking_def new_client_def)

text \<open>
  C10, amended. For a message that names an event with at least one listener, the
  handler throws a TypeError exactly when \<open>params\<close> is absent or \<open>null\<close>, and nothing has
  been emitted then. A \<open>params\<close> that is a number or a boolean has no \<open>length\<close> either,
  but reading it gives \<open>undefined\<close>: the listeners are called with no argument and the
  handler returns normally.
\<close>

theorem params_type_error:
  "m_notification m = Some n \<longrightarrow> n \<noteq> [] \<longrightarrow> listeners c n \<noteq> [] \<longrightarrow>
     (on_message c (Some (DObject m)) = (Inl TypeError, [])
        \<longleftrightarrow> m_params m = None \<or> m_params m = Some PNull)
     \<and> (fst (on_message c (Some (DObject m))) = Inl TypeError
        \<longleftrightarrow> m_params m = None \<or> m_params m = Some PNull)
     \<and> ((\<exists>k. m_params m = Some (PNum k)) \<or> (\<exists>b. m_params m = Some (PBool b)) \<longrightarrow>
          on_message c (Some (DObject m)) = (Inr c, map (\<lambda>l. Invoke l []) (listeners c n)))"
proof (intro impI)
  assume "m_notification m = Some n" "n \<noteq> []" "listeners c n \<noteq> []"
  then have f: "forwards c m = Some n" by (rule forwards_listener)
  show "(on_message c (Some (DObject m)) = (Inl TypeError, [])
        \<longleftrightarrow> m_params m = None \<or> m_params m = Some PNull)
     \<and> (fst (on_message c (Some (DObject m))) = Inl TypeError
        \<longleftrightarrow> m_params m = None \<or> m_params m = Some PNull)
     \<and> ((\<exists>k. m_params m = Some (PNum k)) \<or> (\<exists>b. m_params m = Some (PBool b)) \<longrightarrow>
          on_message c (Some (DObject m)) = (Inr c, map (\<lambda>l. Invoke l []) (listeners c n)))"
  proof (cases "m_params m")
    case None
    with f show ?thesis by (simp add: on_message_forward forward_def)
  next
    case (Some v)
    with f show ?thesis
      by (cases v) (simp_all add: on_message_forward forward_def emit_def)
  qed
qed

theorem params_type_error_witness:
  "m_notification (pushed ''tick'' None) = Some ''tick'' \<and> ''tick'' \<noteq> [] \<and> listeners ticking ''tick'' \<noteq> []
   \<and> on_message ticking (Some (DObject (pushed ''tick'' None))) = (Inl TypeError, [])
   \<and> on_message ticking (Some (DObject (pushed ''tick'' (Some PNull)))) = (Inl TypeError, [])
   \<and> on_message ticking (Some (DObject (pushed ''tick'' (Some (PBool True)))))
       = (Inr ticking, [Invoke 1 [], Invoke 2 []])"
proof -
  have n: "m_notification (pushed ''tick'' ps) = Some ''tick''" for ps
    by (simp add: pushed_def)
  have p: "m_params (pushed ''tick'' ps) = ps" for ps
    by (simp add: pushed_def)
  have l: "listeners ticking ''tick'' = [1, 2]"
    by (simp add: ticking_def new_client_def)
  then have l': "listeners ticking ''tick'' \<noteq> []" by simp
  have e: "''tick'' \<noteq> []" by simp
  from params_type_error [of "pushed ''tick'' None" "''tick''" ticking] n e l' p [of None]
  have 1: "on_message ticking (Some (DObject (pushed ''tick'' None))) = (Inl TypeError, [])"
    by blast
  from params_type_error [of "pushed ''tick'' (Some PNull)" "''tick''" ticking] n e l' p [of "Some PNull"]
  have 2: "on_message ticking (Some (DObject (pushed ''tick'' (Some PNull)))) = (Inl TypeError, [])"
    by blast
  from params_type_error [of "pushed ''tick'' (Some (PBool True))" "''tick''" ticking] n e l'
    p [of "Some (PBool True)"]
  have "on_message ticking (Some (DObject (pushed ''tick'' (Some (PBool True)))))
      = (Inr ticking, map (\<lambda>l. Invoke l []) (listeners ticking ''tick''))"
    by blast
  with l have 3: "on_message ticking (Some (DObject (pushed ''tick'' (Some (PBool True)))))
      = (Inr ticking, [Invoke 1 [], Invoke 2 []])"
    by simp
  from n e l' 1 2 3 show ?thesis by blast
qed

end
